theory Spec2Isabelle
  imports Main "HOL-Library.Sublist"
begin

section \<open>Field values\<close>

text \<open>
  The field store of \<^verbatim>\<open>medical_note_template.py\<close> is a \<^verbatim>\<open>Dict[str, Any]\<close>.
  The values the system is written for are strings and lists of strings; \<^verbatim>\<open>None\<close> is
  the default of \<^verbatim>\<open>get_field\<close> and can be stored as well.
  Strings are ASCII text, one \<open>char\<close> per character.
\<close>

datatype pyval = PNone | PStr string | PList "string list"

text \<open>Python's truth value: \<^verbatim>\<open>None\<close>, \<^verbatim>\<open>''\<close> and \<^verbatim>\<open>[]\<close> are falsy.\<close>

fun truthy :: "pyval \<Rightarrow> bool" where
  "truthy PNone = False"
| "truthy (PStr s) = (s \<noteq> [])"
| "truthy (PList xs) = (xs \<noteq> [])"

text \<open>\<^verbatim>\<open>isinstance(v, list)\<close>\<close>

fun isinstance_list :: "pyval \<Rightarrow> bool" where
  "isinstance_list (PList xs) = True"
| "isinstance_list v = False"

text \<open>\<^verbatim>\<open>sep.join(xs)\<close>\<close>

fun join :: "string \<Rightarrow> string list \<Rightarrow> string" where
  "join sep [] = []"
| "join sep [x] = x"
| "join sep (x # y # ys) = x @ sep @ join sep (y # ys)"

text \<open>
  \<^verbatim>\<open>repr\<close> of a string, as the f-strings of the renderer print the items of a list
  that reaches a scalar slot: single quotes unless the text has a single quote and no
  double quote; backslash, the quote, tab, newline, carriage return and the other control
  characters escaped.
\<close>

definition hex_digit :: "nat \<Rightarrow> char" where
  "hex_digit d = ''0123456789abcdef'' ! (d mod 16)"

definition repr_char :: "char \<Rightarrow> char \<Rightarrow> string" where
  "repr_char q c =
     (if c = q \<or> c = CHR 0x5C then [CHR 0x5C, c]
      else if c = CHR 0x09 then [CHR 0x5C, CHR ''t'']
      else if c = CHR 0x0A then [CHR 0x5C, CHR ''n'']
      else if c = CHR 0x0D then [CHR 0x5C, CHR ''r'']
      else if (of_char c :: nat) < 32 \<or> (of_char c :: nat) = 127
        then [CHR 0x5C, CHR ''x'', hex_digit (of_char c div 16), hex_digit (of_char c)]
      else [c])"

definition repr_str :: "string \<Rightarrow> string" where
  "repr_str s =
     (let q = (if CHR 0x27 \<in> set s \<and> CHR 0x22 \<notin> set s then CHR 0x22 else CHR 0x27)
      in [q] @ concat (map (repr_char q) s) @ [q])"

text \<open>\<^verbatim>\<open>str(v)\<close>, which is what \<^verbatim>\<open>f"{v}"\<close> inserts.\<close>

fun py_str :: "pyval \<Rightarrow> string" where
  "py_str PNone = ''None''"
| "py_str (PStr s) = s"
| "py_str (PList xs) = ''['' @ join '', '' (map repr_str xs) @ '']''"

section \<open>Clock readings\<close>

text \<open>
  A value of \<^verbatim>\<open>datetime.now()\<close>: a naive datetime. Every operation that reads the clock
  takes the reading as an argument. Years have four digits.
\<close>

record datetime =
  year :: nat
  month :: nat
  day :: nat
  hour :: nat
  minute :: nat
  second :: nat
  microsecond :: nat

definition dec_digit :: "nat \<Rightarrow> char" where
  "dec_digit d = ''0123456789'' ! (d mod 10)"

text \<open>A number printed with exactly \<open>k\<close> decimal digits, zero padded.\<close>

fun pad :: "nat \<Rightarrow> nat \<Rightarrow> string" where
  "pad 0 n = []"
| "pad (Suc k) n = pad k (n div 10) @ [dec_digit n]"

text \<open>\<^verbatim>\<open>d.strftime('%Y-%m-%d %H:%M')\<close>\<close>

definition strftime :: "datetime \<Rightarrow> string" where
  "strftime d =
     pad 4 (year d) @ ''-'' @ pad 2 (month d) @ ''-'' @ pad 2 (day d) @ '' '' @
     pad 2 (hour d) @ '':'' @ pad 2 (minute d)"

text \<open>\<^verbatim>\<open>d.isoformat()\<close>: the fraction is printed only when it is not zero.\<close>

definition isoformat :: "datetime \<Rightarrow> string" where
  "isoformat d =
     pad 4 (year d) @ ''-'' @ pad 2 (month d) @ ''-'' @ pad 2 (day d) @ ''T'' @
     pad 2 (hour d) @ '':'' @ pad 2 (minute d) @ '':'' @ pad 2 (second d) @
     (if microsecond d = 0 then [] else ''.'' @ pad 6 (microsecond d))"

section \<open>The template and its field store\<close>

text \<open>The three concrete subclasses of \<^verbatim>\<open>MedicalNoteTemplate\<close>.\<close>

datatype template_class = ConsultNoteTemplate | EpicHandoffTemplate | OperativeReportTemplate

record template =
  cls :: template_class
  fields_dict :: "string \<rightharpoonup> pyval"
  created_date :: datetime
  last_modified :: datetime

text \<open>\<^verbatim>\<open>__init__\<close> reads the clock twice.\<close>

definition init :: "template_class \<Rightarrow> datetime \<Rightarrow> datetime \<Rightarrow> template" where
  "init c now1 now2 = \<lparr>cls = c, fields_dict = Map.empty, created_date = now1, last_modified = now2\<rparr>"

definition set_field :: "datetime \<Rightarrow> string \<Rightarrow> pyval \<Rightarrow> template \<Rightarrow> template" where
  "set_field now field_name v t =
     t\<lparr>fields_dict := (fields_dict t)(field_name \<mapsto> v), last_modified := now\<rparr>"

text \<open>\<^verbatim>\<open>self.fields.get(field_name, default)\<close>\<close>

definition get_field :: "template \<Rightarrow> string \<Rightarrow> pyval \<Rightarrow> pyval" where
  "get_field t field_name dflt =
     (case fields_dict t field_name of None \<Rightarrow> dflt | Some v \<Rightarrow> v)"

text \<open>\<^verbatim>\<open>self.fields.update(field_dict)\<close>: the entries of the argument win.\<close>

definition set_multiple_fields :: "datetime \<Rightarrow> (string \<rightharpoonup> pyval) \<Rightarrow> template \<Rightarrow> template" where
  "set_multiple_fields now field_dict t =
     t\<lparr>fields_dict := fields_dict t ++ field_dict, last_modified := now\<rparr>"

definition clear :: "datetime \<Rightarrow> template \<Rightarrow> template" where
  "clear now t = t\<lparr>fields_dict := Map.empty, last_modified := now\<rparr>"

fun get_required_fields :: "template_class \<Rightarrow> string list" where
  "get_required_fields ConsultNoteTemplate =
     [''patient_name'', ''patient_mrn'', ''date_of_consult'', ''consulting_service'',
      ''reason_for_consult'', ''history_of_present_illness'', ''assessment'',
      ''recommendations'']"
| "get_required_fields EpicHandoffTemplate =
     [''patient_name'', ''patient_mrn'', ''patient_location'', ''primary_diagnosis'',
      ''active_issues'']"
| "get_required_fields OperativeReportTemplate =
     [''patient_name'', ''patient_mrn'', ''date_of_surgery'', ''preoperative_diagnosis'',
      ''postoperative_diagnosis'', ''procedure_performed'', ''surgeon'', ''anesthesia_type'',
      ''operative_findings'', ''description_of_procedure'', ''estimated_blood_loss'',
      ''specimens'', ''complications'', ''disposition'']"

text \<open>
  The loop of \<^verbatim>\<open>validate\<close>: a required field is appended to \<^verbatim>\<open>missing_fields\<close> when
  \<^verbatim>\<open>field not in self.fields or not self.fields[field]\<close>.
\<close>

fun validate_loop :: "(string \<rightharpoonup> pyval) \<Rightarrow> string list \<Rightarrow> string list \<Rightarrow> string list" where
  "validate_loop fs [] missing_fields = missing_fields"
| "validate_loop fs (field # rest) missing_fields =
     validate_loop fs rest
       (if (case fs field of None \<Rightarrow> True | Some v \<Rightarrow> \<not> truthy v)
        then missing_fields @ [field] else missing_fields)"

definition validate :: "template \<Rightarrow> bool \<times> string list" where
  "validate t =
     (let missing_fields = validate_loop (fields_dict t) (get_required_fields (cls t)) []
      in (length missing_fields = 0, missing_fields))"

text \<open>The dictionary of \<^verbatim>\<open>export_to_dict\<close>.\<close>

record export =
  export_template_type :: string
  export_created_date :: string
  export_last_modified :: string
  export_fields :: "string \<rightharpoonup> pyval"

fun class_name :: "template_class \<Rightarrow> string" where
  "class_name ConsultNoteTemplate = ''ConsultNoteTemplate''"
| "class_name EpicHandoffTemplate = ''EpicHandoffTemplate''"
| "class_name OperativeReportTemplate = ''OperativeReportTemplate''"

definition export_to_dict :: "template \<Rightarrow> export" where
  "export_to_dict t =
     \<lparr>export_template_type = class_name (cls t),
      export_created_date = isoformat (created_date t),
      export_last_modified = isoformat (last_modified t),
      export_fields = fields_dict t\<rparr>"

section \<open>Section helpers\<close>

text \<open>\<^verbatim>\<open>_format_section(title, content, indent)\<close>\<close>

definition format_section :: "string \<Rightarrow> pyval \<Rightarrow> int \<Rightarrow> string" where
  "format_section title content indent =
     (if \<not> truthy content then []
      else (let indent_str = replicate (nat indent) CHR '' ''
            in indent_str @ title @ '':\<newline>'' @ indent_str @ py_str content @ ''\<newline>\<newline>''))"

text \<open>
  The items a \<^verbatim>\<open>for item in items\<close> walks: the elements of a list, the characters of a
  string.
\<close>

fun items_of :: "pyval \<Rightarrow> string list" where
  "items_of PNone = []"
| "items_of (PStr s) = map (\<lambda>c. [c]) s"
| "items_of (PList xs) = xs"

text \<open>\<^verbatim>\<open>_format_list_section(title, items, indent)\<close>\<close>

definition format_list_section :: "string \<Rightarrow> pyval \<Rightarrow> int \<Rightarrow> string" where
  "format_list_section title items indent =
     (if \<not> truthy items then []
      else (let indent_str = replicate (nat indent) CHR '' '';
                formatted_items = join ''\<newline>'' (map (\<lambda>item. indent_str @ ''- '' @ item) (items_of items))
            in indent_str @ title @ '':\<newline>'' @ formatted_items @ ''\<newline>\<newline>''))"

section \<open>The renderers\<close>

abbreviation NOT_PROVIDED :: string where
  "NOT_PROVIDED \<equiv> ''[NOT PROVIDED]''"

text \<open>The statements of the three \<^verbatim>\<open>format_note\<close> methods follow six patterns.\<close>

text \<open>\<^verbatim>\<open>note += f"Label: {self.get_field('name', '[NOT PROVIDED]')}\n"\<close>\<close>

definition required_line :: "template \<Rightarrow> string \<Rightarrow> string \<Rightarrow> string" where
  "required_line t label name =
     label @ '': '' @ py_str (get_field t name (PStr NOT_PROVIDED)) @ ''\<newline>''"

text \<open>\<^verbatim>\<open>if self.get_field('name'): note += f"Label: {self.get_field('name')}\n"\<close>\<close>

definition optional_line :: "template \<Rightarrow> string \<Rightarrow> string \<Rightarrow> string" where
  "optional_line t label name =
     (if truthy (get_field t name PNone)
      then label @ '': '' @ py_str (get_field t name PNone) @ ''\<newline>''
      else [])"

text \<open>\<^verbatim>\<open>note += self._format_section("TITLE", self.get_field('name', '[NOT PROVIDED]'))\<close>\<close>

definition required_section :: "template \<Rightarrow> string \<Rightarrow> string \<Rightarrow> string" where
  "required_section t title name =
     format_section title (get_field t name (PStr NOT_PROVIDED)) 0"

text \<open>
  \<^verbatim>\<open>if self.get_field('name'): note += self._format_section("TITLE", self.get_field('name'))\<close>
\<close>

definition optional_section :: "template \<Rightarrow> string \<Rightarrow> string \<Rightarrow> string" where
  "optional_section t title name =
     (if truthy (get_field t name PNone)
      then format_section title (get_field t name PNone) 0
      else [])"

text \<open>
  \<^verbatim>\<open>if isinstance(self.get_field('name'), list):
      note += self._format_list_section("TITLE", self.get_field('name', ['[NOT PROVIDED]']))
  else:
      note += self._format_section("TITLE", self.get_field('name', '[NOT PROVIDED]'))\<close>
\<close>

definition required_dual_section :: "template \<Rightarrow> string \<Rightarrow> string \<Rightarrow> string" where
  "required_dual_section t title name =
     (if isinstance_list (get_field t name PNone)
      then format_list_section title (get_field t name (PList [NOT_PROVIDED])) 0
      else format_section title (get_field t name (PStr NOT_PROVIDED)) 0)"

text \<open>
  \<^verbatim>\<open>if self.get_field('name'):
      if isinstance(self.get_field('name'), list):
          note += self._format_list_section("TITLE", self.get_field('name'))
      else:
          note += self._format_section("TITLE", self.get_field('name'))\<close>
\<close>

definition optional_dual_section :: "template \<Rightarrow> string \<Rightarrow> string \<Rightarrow> string" where
  "optional_dual_section t title name =
     (if truthy (get_field t name PNone)
      then (if isinstance_list (get_field t name PNone)
            then format_list_section title (get_field t name PNone) 0
            else format_section title (get_field t name PNone) 0)
      else [])"

text \<open>
  Each renderer appends to \<^verbatim>\<open>note\<close> statement by statement; the parts are listed in the
  order of the statements and the note is their concatenation. The clock is read once,
  where the date line is written.
\<close>

definition consult_parts :: "datetime \<Rightarrow> template \<Rightarrow> string list" where
  "consult_parts now t =
     [replicate 80 CHR ''='' @ ''\<newline>'',
      ''CONSULTATION NOTE\<newline>'',
      replicate 80 CHR ''='' @ ''\<newline>\<newline>'',
      ''PATIENT INFORMATION:\<newline>'',
      required_line t ''Name'' ''patient_name'',
      required_line t ''MRN'' ''patient_mrn'',
      optional_line t ''DOB'' ''patient_dob'',
      optional_line t ''Age'' ''age'',
      optional_line t ''Sex'' ''sex'',
      required_line t ''Date of Consult'' ''date_of_consult'',
      required_line t ''Consulting Service'' ''consulting_service'',
      optional_line t ''Referring Provider'' ''referring_provider'',
      ''\<newline>'',
      required_section t ''REASON FOR CONSULT'' ''reason_for_consult'',
      required_section t ''HISTORY OF PRESENT ILLNESS'' ''history_of_present_illness'',
      optional_section t ''PAST MEDICAL HISTORY'' ''past_medical_history'',
      optional_section t ''PAST SURGICAL HISTORY'' ''past_surgical_history'',
      optional_dual_section t ''MEDICATIONS'' ''medications'',
      optional_section t ''ALLERGIES'' ''allergies'',
      optional_section t ''SOCIAL HISTORY'' ''social_history'',
      optional_section t ''FAMILY HISTORY'' ''family_history'',
      optional_section t ''REVIEW OF SYSTEMS'' ''review_of_systems'',
      optional_section t ''PHYSICAL EXAMINATION'' ''physical_exam'',
      optional_section t ''LABORATORY DATA'' ''labs'',
      optional_section t ''IMAGING'' ''imaging'',
      optional_section t ''OTHER STUDIES'' ''other_studies'',
      required_section t ''ASSESSMENT'' ''assessment'',
      optional_dual_section t ''DIFFERENTIAL DIAGNOSIS'' ''differential_diagnosis'',
      required_dual_section t ''RECOMMENDATIONS'' ''recommendations'',
      optional_dual_section t ''PLAN'' ''plan'',
      optional_section t ''FOLLOW-UP'' ''follow_up'',
      ''\<newline>'' @ replicate 80 CHR ''-'' @ ''\<newline>'',
      optional_line t ''Consulting Physician'' ''consulting_physician'',
      optional_line t ''Attending Physician'' ''attending_physician'',
      ''Date: '' @ strftime now @ ''\<newline>'']"

definition handoff_parts :: "datetime \<Rightarrow> template \<Rightarrow> string list" where
  "handoff_parts now t =
     [replicate 80 CHR ''='' @ ''\<newline>'',
      ''HANDOFF NOTE\<newline>'',
      replicate 80 CHR ''='' @ ''\<newline>\<newline>'',
      required_line t ''Patient'' ''patient_name'',
      required_line t ''MRN'' ''patient_mrn'',
      required_line t ''Location'' ''patient_location'',
      optional_line t ''Age'' ''age'',
      optional_line t ''Sex'' ''sex'',
      optional_line t ''Admission Date'' ''admission_date'',
      optional_line t ''Hospital Day'' ''hospital_day'',
      optional_line t ''Code Status'' ''code_status'',
      ''Handoff Date/Time: '' @ strftime now @ ''\<newline>'',
      optional_line t ''From'' ''handoff_from'',
      optional_line t ''To'' ''handoff_to'',
      ''\<newline>'',
      required_section t ''PRIMARY DIAGNOSIS'' ''primary_diagnosis'',
      optional_section t ''BRIEF HISTORY'' ''brief_history'',
      optional_section t ''PAST MEDICAL HISTORY'' ''past_medical_history'',
      optional_section t ''ALLERGIES'' ''allergies'',
      required_dual_section t ''ACTIVE ISSUES'' ''active_issues'',
      optional_section t ''VITAL SIGNS'' ''vital_signs'',
      optional_section t ''KEY LABS'' ''key_labs'',
      optional_section t ''KEY IMAGING'' ''key_imaging'',
      optional_dual_section t ''CURRENT MEDICATIONS'' ''current_medications'',
      optional_section t ''IV FLUIDS'' ''iv_fluids'',
      optional_section t ''DIET'' ''diet'',
      optional_section t ''ACTIVITY'' ''activity'',
      optional_dual_section t ''LINES/TUBES/DRAINS'' ''lines_tubes_drains'',
      optional_dual_section t ''PENDING STUDIES'' ''pending_studies'',
      optional_dual_section t ''PENDING CONSULTS'' ''pending_consults'',
      optional_dual_section t ''TO-DO LIST'' ''to_do_list'',
      optional_dual_section t ''IF-THEN SCENARIOS'' ''if_then_scenarios'',
      optional_section t ''ANTICIPATED DISCHARGE DATE'' ''anticipated_discharge_date'',
      optional_section t ''DISCHARGE PLANNING'' ''discharge_planning'',
      optional_section t ''FAMILY COMMUNICATION'' ''family_communication'',
      replicate 80 CHR ''='' @ ''\<newline>'']"

definition operative_parts :: "datetime \<Rightarrow> template \<Rightarrow> string list" where
  "operative_parts now t =
     [replicate 80 CHR ''='' @ ''\<newline>'',
      ''OPERATIVE REPORT\<newline>'',
      replicate 80 CHR ''='' @ ''\<newline>\<newline>'',
      ''PATIENT INFORMATION:\<newline>'',
      required_line t ''Name'' ''patient_name'',
      required_line t ''MRN'' ''patient_mrn'',
      optional_line t ''DOB'' ''patient_dob'',
      optional_line t ''Age'' ''age'',
      optional_line t ''Sex'' ''sex'',
      required_line t ''Date of Surgery'' ''date_of_surgery'',
      optional_line t ''Start Time'' ''start_time'',
      optional_line t ''End Time'' ''end_time'',
      optional_line t ''Total Time'' ''total_time'',
      ''\<newline>'',
      ''SURGICAL TEAM:\<newline>'',
      required_line t ''Surgeon'' ''surgeon'',
      optional_line t ''Assistant Surgeon'' ''assistant_surgeon'',
      optional_line t ''Attending Surgeon'' ''attending_surgeon'',
      optional_line t ''Anesthesiologist'' ''anesthesiologist'',
      required_line t ''Anesthesia Type'' ''anesthesia_type'',
      optional_line t ''Nursing Staff'' ''nurses'',
      ''\<newline>'',
      required_section t ''PREOPERATIVE DIAGNOSIS'' ''preoperative_diagnosis'',
      required_section t ''POSTOPERATIVE DIAGNOSIS'' ''postoperative_diagnosis'',
      required_dual_section t ''PROCEDURE(S) PERFORMED'' ''procedure_performed'',
      optional_section t ''INDICATION'' ''indication'',
      required_section t ''OPERATIVE FINDINGS'' ''operative_findings'',
      required_section t ''DESCRIPTION OF PROCEDURE'' ''description_of_procedure'',
      ''INTRAOPERATIVE DETAILS:\<newline>'',
      required_line t ''Estimated Blood Loss'' ''estimated_blood_loss'',
      optional_line t ''IV Fluids Given'' ''ivf_given'',
      optional_line t ''Urine Output'' ''urine_output'',
      ''\<newline>'',
      required_section t ''SPECIMENS'' ''specimens'',
      optional_section t ''PATHOLOGY'' ''pathology'',
      optional_section t ''DRAINS'' ''drains'',
      optional_section t ''IMPLANTS'' ''implants'',
      optional_section t ''COUNTS'' ''counts_correct'',
      required_section t ''COMPLICATIONS'' ''complications'',
      required_section t ''DISPOSITION'' ''disposition'',
      optional_section t ''CONDITION'' ''condition'',
      optional_section t ''FOLLOW-UP PLAN'' ''follow_up_plan'',
      ''\<newline>'' @ replicate 80 CHR ''-'' @ ''\<newline>'',
      required_line t ''Surgeon'' ''surgeon'',
      optional_line t ''Attending'' ''attending_surgeon'',
      ''Date: '' @ strftime now @ ''\<newline>'']"

text \<open>\<^verbatim>\<open>format_note\<close>, dispatched on the class of the template.\<close>

definition format_note :: "datetime \<Rightarrow> template \<Rightarrow> string" where
  "format_note now t =
     (case cls t of
        ConsultNoteTemplate \<Rightarrow> concat (consult_parts now t)
      | EpicHandoffTemplate \<Rightarrow> concat (handoff_parts now t)
      | OperativeReportTemplate \<Rightarrow> concat (operative_parts now t))"

section \<open>The factory\<close>

datatype error = ValueError string

text \<open>\<^verbatim>\<open>str.lower\<close> on ASCII text.\<close>

definition lower_char :: "char \<Rightarrow> char" where
  "lower_char c =
     (case map_of (zip ''ABCDEFGHIJKLMNOPQRSTUVWXYZ'' ''abcdefghijklmnopqrstuvwxyz'') c of
        Some l \<Rightarrow> l
      | None \<Rightarrow> c)"

definition lower :: "string \<Rightarrow> string" where
  "lower s = map lower_char s"

text \<open>The lookup table of \<^verbatim>\<open>create_template\<close>, in the order of its keys.\<close>

definition templates :: "(string \<times> template_class) list" where
  "templates =
     [(''consult'', ConsultNoteTemplate),
      (''handoff'', EpicHandoffTemplate),
      (''operative'', OperativeReportTemplate)]"

definition create_template :: "string \<Rightarrow> datetime \<Rightarrow> datetime \<Rightarrow> error + template" where
  "create_template template_type now1 now2 =
     (let template_type = lower template_type
      in case map_of templates template_type of
           None \<Rightarrow>
             Inl (ValueError (''Unknown template type: '' @ template_type @ ''. '' @
                              ''Valid types are: '' @ join '', '' (map fst templates)))
         | Some c \<Rightarrow> Inr (init c now1 now2))"

section \<open>Calls on a template\<close>

text \<open>
  A call of one public method, what it returns and the template after it. No method body
  has a \<^verbatim>\<open>raise\<close>; the three methods that assign to \<^verbatim>\<open>self\<close> are
  \<^verbatim>\<open>set_field\<close>, \<^verbatim>\<open>set_multiple_fields\<close> and \<^verbatim>\<open>clear\<close>.
\<close>

datatype call =
    SetField string pyval
  | GetField string pyval
  | SetMultipleFields "string \<rightharpoonup> pyval"
  | Validate
  | Clear
  | ExportToDict
  | FormatNote

datatype returned =
    RNone
  | RValue pyval
  | RValid "bool \<times> string list"
  | RDict export
  | RText string

fun run :: "datetime \<Rightarrow> call \<Rightarrow> template \<Rightarrow> error + (returned \<times> template)" where
  "run now (SetField field_name v) t = Inr (RNone, set_field now field_name v t)"
| "run now (GetField field_name dflt) t = Inr (RValue (get_field t field_name dflt), t)"
| "run now (SetMultipleFields field_dict) t = Inr (RNone, set_multiple_fields now field_dict t)"
| "run now Validate t = Inr (RValid (validate t), t)"
| "run now Clear t = Inr (RNone, clear now t)"
| "run now ExportToDict t = Inr (RDict (export_to_dict t), t)"
| "run now FormatNote t = Inr (RText (format_note now t), t)"

section \<open>Notions used in the statements\<close>

text \<open>Two clock readings for the concrete instances.\<close>

definition example_created :: datetime where
  "example_created =
     \<lparr>year = 2025, month = 10, day = 20, hour = 9, minute = 5, second = 7, microsecond = 0\<rparr>"

definition example_now :: datetime where
  "example_now =
     \<lparr>year = 2025, month = 10, day = 21, hour = 14, minute = 30, second = 0, microsecond = 1234\<rparr>"

text \<open>The calls of the methods that assign to \<^verbatim>\<open>self\<close>.\<close>

fun is_mutator :: "call \<Rightarrow> bool" where
  "is_mutator (SetField field_name v) = True"
| "is_mutator (SetMultipleFields field_dict) = True"
| "is_mutator Clear = True"
| "is_mutator c = False"





text \<open>A Consult template with every required field filled, and a plan given as text.\<close>

definition consult_populated :: template where
  "consult_populated =
     set_field example_now ''plan'' (PStr ''Follow up in clinic'')
       (set_multiple_fields example_now
          [''patient_name'' \<mapsto> PStr ''John Doe'',
           ''patient_mrn'' \<mapsto> PStr ''12345678'',
           ''date_of_consult'' \<mapsto> PStr ''2025-10-20'',
           ''consulting_service'' \<mapsto> PStr ''Cardiology'',
           ''reason_for_consult'' \<mapsto> PStr ''Chest pain'',
           ''history_of_present_illness'' \<mapsto> PStr ''Three days of chest pain'',
           ''assessment'' \<mapsto> PStr ''Likely angina'',
           ''recommendations'' \<mapsto> PList [''A'', ''B'']]
          (init ConsultNoteTemplate example_created example_created))"

text \<open>The same template with \<open>allergies\<close>, a field rendered by a scalar section, set to a list.\<close>

definition consult_listed_allergies :: template where
  "consult_listed_allergies = set_field example_now ''allergies'' (PList [''A'', ''B'']) consult_populated"

text \<open>The lines of a text: \<^verbatim>\<open>text.split('\n')\<close>.\<close>

fun split_lines :: "string \<Rightarrow> string list" where
  "split_lines [] = [[]]"
| "split_lines (c # cs) =
     (if c = CHR 0x0A then [] # split_lines cs
      else (case split_lines cs of [] \<Rightarrow> [[c]] | l # ls \<Rightarrow> (c # l) # ls))"

text \<open>
  A rule line is a line of eighty \<open>=\<close> or eighty \<open>-\<close>. The footer of a note is what follows
  its last rule line; it carries the timestamp when one of its lines contains the printed
  clock reading.
\<close>

definition is_rule_line :: "string \<Rightarrow> bool" where
  "is_rule_line l = (l = replicate 80 CHR ''='' \<or> l = replicate 80 CHR ''-'')"

definition footer_lines :: "string \<Rightarrow> string list" where
  "footer_lines note = rev (takeWhile (\<lambda>l. \<not> is_rule_line l) (rev (split_lines note)))"

definition footer_has_timestamp :: "datetime \<Rightarrow> string \<Rightarrow> bool" where
  "footer_has_timestamp now note = list_ex (sublist (strftime now)) (footer_lines note)"

text \<open>The header banner: the first three statements of each \<^verbatim>\<open>format_note\<close>.\<close>

fun note_title :: "template_class \<Rightarrow> string" where
  "note_title ConsultNoteTemplate = ''CONSULTATION NOTE''"
| "note_title EpicHandoffTemplate = ''HANDOFF NOTE''"
| "note_title OperativeReportTemplate = ''OPERATIVE REPORT''"

definition header_banner :: "template_class \<Rightarrow> string" where
  "header_banner c =
     replicate 80 CHR ''='' @ ''\<newline>'' @ note_title c @ ''\<newline>'' @
     replicate 80 CHR ''='' @ ''\<newline>\<newline>''"

text \<open>
  The fields whose statement in \<^verbatim>\<open>format_note\<close> has an \<^verbatim>\<open>isinstance(..., list)\<close>
  branch, with the title of their section.
\<close>

fun list_sections :: "template_class \<Rightarrow> (string \<times> string) list" where
  "list_sections ConsultNoteTemplate =
     [(''medications'', ''MEDICATIONS''),
      (''differential_diagnosis'', ''DIFFERENTIAL DIAGNOSIS''),
      (''recommendations'', ''RECOMMENDATIONS''),
      (''plan'', ''PLAN'')]"
| "list_sections EpicHandoffTemplate =
     [(''active_issues'', ''ACTIVE ISSUES''),
      (''current_medications'', ''CURRENT MEDICATIONS''),
      (''lines_tubes_drains'', ''LINES/TUBES/DRAINS''),
      (''pending_studies'', ''PENDING STUDIES''),
      (''pending_consults'', ''PENDING CONSULTS''),
      (''to_do_list'', ''TO-DO LIST''),
      (''if_then_scenarios'', ''IF-THEN SCENARIOS'')]"
| "list_sections OperativeReportTemplate =
     [(''procedure_performed'', ''PROCEDURE(S) PERFORMED'')]"

section \<open>The field store\<close>

lemma get_field_same_store:
  "fields_dict t1 = fields_dict t2 \<Longrightarrow> get_field t1 name dflt = get_field t2 name dflt"
  by (simp add: get_field_def)

text \<open>
  C7: for every template, field name and value, \<open>set_field\<close> followed at once by
  \<open>get_field\<close> on the same name returns exactly the value that was stored, whatever the
  default.
\<close>

theorem set_then_get_roundtrip:
  "get_field (set_field now name v t) name dflt = v"
  by (simp add: get_field_def set_field_def)

text \<open>
  C9: \<open>get_field\<close> falls back to the default when the name is not a key of the store, and
  returns the stored value whenever the name is a key, also when that value is an empty
  string, an empty list or \<open>None\<close>.
\<close>

theorem get_field_default_only_when_absent:
  "(fields_dict t name = None \<longrightarrow> get_field t name dflt = dflt) \<and>
   (\<forall>v. fields_dict t name = Some v \<longrightarrow> get_field t name dflt = v)"
  by (simp add: get_field_def)

theorem get_field_default_only_when_absent_witness:
  "get_field (init ConsultNoteTemplate example_created example_created) ''age'' (PStr ''n/a'')
     = PStr ''n/a'' \<and>
   get_field (set_field example_now ''age'' (PStr [])
                (init ConsultNoteTemplate example_created example_created))
      ''age'' (PStr ''n/a'') = PStr [] \<and>
   get_field (set_field example_now ''age'' (PList [])
                (init ConsultNoteTemplate example_created example_created))
      ''age'' (PStr ''n/a'') = PList [] \<and>
   get_field (set_field example_now ''age'' PNone
                (init ConsultNoteTemplate example_created example_created))
      ''age'' (PStr ''n/a'') = PNone"
  using get_field_default_only_when_absent
          [of "init ConsultNoteTemplate example_created example_created" "''age''" "PStr ''n/a''"]
        get_field_default_only_when_absent
          [of "set_field example_now ''age'' (PStr [])
                 (init ConsultNoteTemplate example_created example_created)"
              "''age''" "PStr ''n/a''"]
        get_field_default_only_when_absent
          [of "set_field example_now ''age'' (PList [])
                 (init ConsultNoteTemplate example_created example_created)"
              "''age''" "PStr ''n/a''"]
        get_field_default_only_when_absent
          [of "set_field example_now ''age'' PNone
                 (init ConsultNoteTemplate example_created example_created)"
              "''age''" "PStr ''n/a''"]
  by (simp add: set_field_def init_def)

section \<open>Validation\<close>

lemma validate_loop_filter:
  "validate_loop fs xs acc =
     acc @ filter (\<lambda>f. case fs f of None \<Rightarrow> True | Some v \<Rightarrow> \<not> truthy v) xs"
  by (induction xs arbitrary: acc) simp_all

lemma falsy_cases: "(\<not> truthy v) = (v = PStr [] \<or> v = PList [] \<or> v = PNone)"
  by (cases v) simp_all

lemma missing_test:
  "(case fs f of None \<Rightarrow> True | Some v \<Rightarrow> \<not> truthy v) =
   (f \<notin> dom fs \<or> fs f = Some (PStr []) \<or> fs f = Some (PList []) \<or> fs f = Some PNone)"
  by (cases "fs f") (auto simp: falsy_cases)

text \<open>
  C1: for every template of every class, \<open>validate\<close> returns the pair whose second
  component lists, in the order of the class's required-field declaration, exactly the
  required names that are not keys of the store or are bound to a falsy value (the empty
  string, the empty list, or \<open>None\<close>), and whose first component says that this list is empty.
\<close>

theorem validate_missing_exact:
  "validate t =
     (let missing =
        filter (\<lambda>f. f \<notin> dom (fields_dict t) \<or> fields_dict t f = Some (PStr [])
                    \<or> fields_dict t f = Some (PList []) \<or> fields_dict t f = Some PNone)
               (get_required_fields (cls t))
      in (missing = [], missing))"
  by (simp add: validate_def validate_loop_filter missing_test Let_def)

theorem validate_missing_exact_witness:
  "validate (set_field example_now ''patient_mrn'' (PStr [])
      (set_field example_now ''patient_name'' (PStr ''Jane Smith'')
         (set_field example_now ''active_issues'' (PList [])
            (init EpicHandoffTemplate example_created example_created))))
   = (False, [''patient_mrn'', ''patient_location'', ''primary_diagnosis'', ''active_issues''])"
  using validate_missing_exact [of "set_field example_now ''patient_mrn'' (PStr [])
      (set_field example_now ''patient_name'' (PStr ''Jane Smith'')
         (set_field example_now ''active_issues'' (PList [])
            (init EpicHandoffTemplate example_created example_created)))"]
  by (simp add: set_field_def init_def Let_def)

text \<open>
  C4: a Handoff template on which only \<open>patient_name\<close> has been set, to "Jane Smith",
  validates to \<open>False\<close> with the missing fields \<open>patient_mrn\<close>, \<open>patient_location\<close>,
  \<open>primary_diagnosis\<close>, \<open>active_issues\<close>, in this order.
\<close>

theorem handoff_only_name_validate:
  "validate (set_field now ''patient_name'' (PStr ''Jane Smith'')
               (init EpicHandoffTemplate now1 now2))
   = (False, [''patient_mrn'', ''patient_location'', ''primary_diagnosis'', ''active_issues''])"
  by (simp add: validate_def set_field_def init_def)

section \<open>Timestamps and the frame of each call\<close>

text \<open>
  C10: every call returns; none changes the creation timestamp; \<open>set_field\<close>,
  \<open>set_multiple_fields\<close> and \<open>clear\<close> set the last-modified timestamp to the clock
  reading of the call; \<open>get_field\<close>, \<open>validate\<close>, \<open>export_to_dict\<close> and \<open>format_note\<close>
  leave the whole template, both timestamps and the field store, as it was.
\<close>

theorem timestamps_frame:
  "\<exists>r t'. run now c t = Inr (r, t') \<and>
     created_date t' = created_date t \<and>
     (is_mutator c \<longrightarrow> last_modified t' = now) \<and>
     (\<not> is_mutator c \<longrightarrow> t' = t)"
  by (cases c) (simp_all add: set_field_def set_multiple_fields_def clear_def)

theorem timestamps_frame_witness:
  "is_mutator (SetField ''age'' (PStr ''55'')) \<and> \<not> is_mutator Validate \<and>
   (\<exists>r t'. run example_now (SetField ''age'' (PStr ''55''))
              (init ConsultNoteTemplate example_created example_created) = Inr (r, t') \<and>
            created_date t' = example_created \<and> last_modified t' = example_now) \<and>
   (\<exists>r. run example_now Validate (init ConsultNoteTemplate example_created example_created)
         = Inr (r, init ConsultNoteTemplate example_created example_created))"
  using timestamps_frame [of example_now "SetField ''age'' (PStr ''55'')"
                             "init ConsultNoteTemplate example_created example_created"]
        timestamps_frame [of example_now Validate
                             "init ConsultNoteTemplate example_created example_created"]
  by (simp add: init_def)

section \<open>Failure\<close>

text \<open>
  C6: \<open>create_template\<close> fails exactly when the lower-cased name is none of \<open>consult\<close>,
  \<open>handoff\<close>, \<open>operative\<close>, and the failure is a \<open>ValueError\<close> whose message names the
  three as the valid types; with a recognised name it returns a fresh template; and a call
  of any method on any template returns.
\<close>

theorem create_template_only_failure:
  "(lower name \<notin> {''consult'', ''handoff'', ''operative''} \<longrightarrow>
      create_template name now1 now2 =
        Inl (ValueError (''Unknown template type: '' @ lower name @
                         ''. Valid types are: consult, handoff, operative''))) \<and>
   (lower name \<in> {''consult'', ''handoff'', ''operative''} \<longrightarrow>
      (\<exists>c. create_template name now1 now2 = Inr (init c now1 now2))) \<and>
   (\<exists>r t'. run now c t = Inr (r, t'))"
proof -
  have called: "\<exists>r t'. run now c t = Inr (r, t')"
    by (cases c) simp_all
  have unknown: "create_template name now1 now2 =
        Inl (ValueError (''Unknown template type: '' @ lower name @
                         ''. Valid types are: consult, handoff, operative''))"
    if "lower name \<notin> {''consult'', ''handoff'', ''operative''}"
    using that by (simp add: create_template_def templates_def Let_def)
  have known: "\<exists>c. create_template name now1 now2 = Inr (init c now1 now2)"
    if "lower name \<in> {''consult'', ''handoff'', ''operative''}"
    using that by (auto simp add: create_template_def templates_def Let_def)
  from called unknown known show ?thesis by blast
qed

theorem create_template_only_failure_witness:
  "lower ''foo'' \<notin> {''consult'', ''handoff'', ''operative''} \<and>
   create_template ''foo'' example_created example_created =
     Inl (ValueError ''Unknown template type: foo. Valid types are: consult, handoff, operative'') \<and>
   lower ''HandOff'' \<in> {''consult'', ''handoff'', ''operative''} \<and>
   (\<exists>c. create_template ''HandOff'' example_created example_created
        = Inr (init c example_created example_created))"
  using create_template_only_failure [of "''foo''" example_created example_created]
        create_template_only_failure [of "''HandOff''" example_created example_created]
  by (simp add: lower_def lower_char_def)

section \<open>Rendering depends on the class, the store and the clock reading only\<close>

lemma same_store_patterns:
  assumes "fields_dict t1 = fields_dict t2"
  shows "required_line t1 = required_line t2"
    and "optional_line t1 = optional_line t2"
    and "required_section t1 = required_section t2"
    and "optional_section t1 = optional_section t2"
    and "required_dual_section t1 = required_dual_section t2"
    and "optional_dual_section t1 = optional_dual_section t2"
  by (simp_all add: fun_eq_iff required_line_def optional_line_def required_section_def
        optional_section_def required_dual_section_def optional_dual_section_def
        get_field_def assms)

lemma same_store_parts:
  assumes "fields_dict t1 = fields_dict t2"
  shows "consult_parts now t1 = consult_parts now t2"
    and "handoff_parts now t1 = handoff_parts now t2"
    and "operative_parts now t1 = operative_parts now t2"
  by (simp_all only: consult_parts_def handoff_parts_def operative_parts_def
        same_store_patterns [OF assms])

lemma same_store_format_note:
  "cls t1 = cls t2 \<Longrightarrow> fields_dict t1 = fields_dict t2 \<Longrightarrow>
   format_note now t1 = format_note now t2"
  using same_store_parts [of t1 t2 now]
  by (cases "cls t2") (simp_all add: format_note_def)

lemma consult_hole:
  "concat (consult_parts now t) =
     (concat (butlast (consult_parts example_now t)) @ ''Date: '') @ strftime now @ ''\<newline>''"
  by (simp add: consult_parts_def)

lemma operative_hole:
  "concat (operative_parts now t) =
     (concat (butlast (operative_parts example_now t)) @ ''Date: '') @ strftime now @ ''\<newline>''"
  by (simp add: operative_parts_def)

lemma handoff_hole:
  "concat (handoff_parts now t) =
     (concat (take 11 (handoff_parts example_now t)) @ ''Handoff Date/Time: '') @ strftime now @
     (''\<newline>'' @ concat (drop 12 (handoff_parts example_now t)))"
  by (simp add: handoff_parts_def)

lemma format_note_hole: "\<exists>pre post. \<forall>now. format_note now t = pre @ strftime now @ post"
proof (cases "cls t")
  case ConsultNoteTemplate
  then show ?thesis
    unfolding format_note_def using consult_hole [of _ t]
    by (simp only: template_class.case) blast
next
  case EpicHandoffTemplate
  then show ?thesis
    unfolding format_note_def using handoff_hole [of _ t]
    by (simp only: template_class.case) blast
next
  case OperativeReportTemplate
  then show ?thesis
    unfolding format_note_def using operative_hole [of _ t]
    by (simp only: template_class.case) blast
qed

text \<open>
  C8: two templates of the same class with the same field store render, at the same clock
  reading, to the same text, whatever their timestamps; and at any two clock readings
  their notes are one fixed text around the printed reading: they differ at most in the
  timestamp line.
\<close>

theorem rendering_deterministic:
  assumes "cls t1 = cls t2" and "fields_dict t1 = fields_dict t2"
  shows "format_note now t1 = format_note now t2 \<and>
         (\<exists>pre post. \<forall>now1 now2. format_note now1 t1 = pre @ strftime now1 @ post \<and>
                                  format_note now2 t2 = pre @ strftime now2 @ post)"
proof -
  have same: "format_note n t1 = format_note n t2" for n
    using assms by (rule same_store_format_note)
  obtain pre post where "\<forall>n. format_note n t1 = pre @ strftime n @ post"
    using format_note_hole by blast
  with same have "\<forall>now1 now2. format_note now1 t1 = pre @ strftime now1 @ post \<and>
                              format_note now2 t2 = pre @ strftime now2 @ post"
    by simp
  with same show ?thesis by blast
qed

theorem rendering_deterministic_witness:
  "cls (set_field example_now ''age'' (PStr ''55'')
          (init ConsultNoteTemplate example_created example_created)) =
   cls (set_field example_created ''age'' (PStr ''55'')
          (init ConsultNoteTemplate example_now example_now)) \<and>
   fields_dict (set_field example_now ''age'' (PStr ''55'')
          (init ConsultNoteTemplate example_created example_created)) =
   fields_dict (set_field example_created ''age'' (PStr ''55'')
          (init ConsultNoteTemplate example_now example_now)) \<and>
   format_note example_now (set_field example_now ''age'' (PStr ''55'')
          (init ConsultNoteTemplate example_created example_created)) =
   format_note example_now (set_field example_created ''age'' (PStr ''55'')
          (init ConsultNoteTemplate example_now example_now))"
  using rendering_deterministic
          [of "set_field example_now ''age'' (PStr ''55'')
                 (init ConsultNoteTemplate example_created example_created)"
              "set_field example_created ''age'' (PStr ''55'')
                 (init ConsultNoteTemplate example_now example_now)"
              example_now]
  by (simp add: set_field_def init_def)

section \<open>Parts of a note\<close>

lemma part_sublist: "p \<in> set ps \<Longrightarrow> sublist p (concat ps)"
proof -
  assume "p \<in> set ps"
  then obtain as bs where "ps = as @ p # bs"
    by (auto simp: in_set_conv_decomp)
  then have "concat ps = concat as @ p @ concat bs" by simp
  then show ?thesis unfolding sublist_def by blast
qed

section \<open>Placeholders for required fields\<close>













section \<open>Banners and the timestamp\<close>

lemma split_lines_not_Nil: "split_lines s \<noteq> []"
  by (induction s) (auto split: list.splits)

lemma split_lines_no_newline: "CHR 0x0A \<notin> set s \<Longrightarrow> split_lines s = [s]"
  by (induction s) auto

lemma split_lines_at_newline:
  "split_lines (a @ CHR 0x0A # b) = split_lines a @ split_lines b"
proof (induction a)
  case Nil
  show ?case by simp
next
  case (Cons c a)
  obtain l ls where "split_lines a = l # ls"
    using split_lines_not_Nil [of a] by (cases "split_lines a") auto
  with Cons show ?case by simp
qed

lemma dec_digit_not_newline: "dec_digit n \<noteq> CHR 0x0A"
proof -
  have "dec_digit n \<in> set ''0123456789''"
    unfolding dec_digit_def by (rule nth_mem) simp
  then show ?thesis by auto
qed

lemma pad_no_newline: "CHR 0x0A \<notin> set (pad k n)"
  by (induction k arbitrary: n) (simp_all add: dec_digit_not_newline [symmetric])

lemma strftime_no_newline: "CHR 0x0A \<notin> set (strftime now)"
  by (simp add: strftime_def pad_no_newline)

lemma rule_line_chars: "is_rule_line l \<Longrightarrow> set l \<subseteq> {CHR ''='', CHR ''-''}"
  by (auto simp: is_rule_line_def)

lemma date_line_in_footer:
  "footer_has_timestamp now (P @ ''\<newline>'' @ (''Date: '' @ strftime now) @ ''\<newline>'')"
proof -
  let ?D = "''Date: '' @ strftime now"
  have nl: "CHR 0x0A \<notin> set ?D"
    using strftime_no_newline [of now] by simp
  have "P @ ''\<newline>'' @ ?D @ ''\<newline>'' = P @ CHR 0x0A # (?D @ CHR 0x0A # [])"
    by simp
  then have lines: "split_lines (P @ ''\<newline>'' @ ?D @ ''\<newline>'') = split_lines P @ [?D, []]"
    using split_lines_no_newline [OF nl]
    by (simp only: split_lines_at_newline split_lines.simps) simp
  have not_rule: "\<not> is_rule_line ?D"
    using rule_line_chars [of ?D] by auto
  have empty_not_rule: "\<not> is_rule_line []"
    by (simp add: is_rule_line_def)
  have "?D \<in> set (footer_lines (P @ ''\<newline>'' @ ?D @ ''\<newline>''))"
    unfolding footer_lines_def lines using not_rule empty_not_rule by simp
  moreover have "sublist (strftime now) ?D"
    by (rule suffix_imp_sublist) (simp add: suffix_def)
  ultimately show ?thesis
    unfolding footer_has_timestamp_def list_ex_iff by blast
qed

lemma newline_end_append:
  "suffix ''\<newline>'' a \<Longrightarrow> b = [] \<or> suffix ''\<newline>'' b \<Longrightarrow> suffix ''\<newline>'' (a @ b)"
  by (auto simp: suffix_def)

lemma optional_line_end: "optional_line t label name = [] \<or> suffix ''\<newline>'' (optional_line t label name)"
  by (simp add: optional_line_def suffix_def)

lemma required_line_end: "suffix ''\<newline>'' (required_line t label name)"
  by (simp add: required_line_def suffix_def)

lemma signature_block_end:
  assumes "ps = front @ [''\<newline>'' @ replicate 80 CHR ''-'' @ ''\<newline>'', o1, o2]"
    and "o1 = [] \<or> suffix ''\<newline>'' o1" and "o2 = [] \<or> suffix ''\<newline>'' o2"
  shows "suffix ''\<newline>'' (concat ps)"
proof -
  have "suffix ''\<newline>'' (concat front @ ''\<newline>'' @ replicate 80 CHR ''-'' @ ''\<newline>'')"
    by (simp add: suffix_def)
  then have "suffix ''\<newline>'' ((concat front @ ''\<newline>'' @ replicate 80 CHR ''-'' @ ''\<newline>'') @ o1)"
    using assms(2) by (rule newline_end_append)
  then have "suffix ''\<newline>'' (((concat front @ ''\<newline>'' @ replicate 80 CHR ''-'' @ ''\<newline>'') @ o1) @ o2)"
    using assms(3) by (rule newline_end_append)
  then show ?thesis by (simp add: assms(1))
qed

lemma consult_body_end: "suffix ''\<newline>'' (concat (butlast (consult_parts now t)))"
  by (rule signature_block_end
        [where front = "take 31 (consult_parts now t)", OF _ optional_line_end optional_line_end])
     (simp add: consult_parts_def)

lemma operative_body_end: "suffix ''\<newline>'' (concat (butlast (operative_parts now t)))"
  by (rule signature_block_end
        [where front = "take 42 (operative_parts now t)",
         OF _ disjI2 [OF required_line_end] optional_line_end])
     (simp add: operative_parts_def)

lemma dated_footer:
  assumes "suffix ''\<newline>'' body"
  shows "footer_has_timestamp now (body @ ''Date: '' @ strftime now @ ''\<newline>'')"
proof -
  from assms obtain P where "body = P @ ''\<newline>''"
    by (auto simp: suffix_def)
  then show ?thesis
    using date_line_in_footer [of now P] by simp
qed

lemma consult_footer: "footer_has_timestamp now (concat (consult_parts now t))"
proof -
  have "concat (consult_parts now t) =
          concat (butlast (consult_parts now t)) @ ''Date: '' @ strftime now @ ''\<newline>''"
    by (simp add: consult_parts_def)
  then show ?thesis
    using dated_footer [OF consult_body_end, of now now t] by simp
qed

lemma operative_footer: "footer_has_timestamp now (concat (operative_parts now t))"
proof -
  have "concat (operative_parts now t) =
          concat (butlast (operative_parts now t)) @ ''Date: '' @ strftime now @ ''\<newline>''"
    by (simp add: operative_parts_def)
  then show ?thesis
    using dated_footer [OF operative_body_end, of now now t] by simp
qed

lemma header_prefix: "prefix (header_banner (cls t)) (format_note now t)"
proof (cases "cls t")
  case ConsultNoteTemplate
  have "concat (consult_parts now t) =
          header_banner ConsultNoteTemplate @ concat (drop 3 (consult_parts now t))"
    by (simp add: consult_parts_def header_banner_def)
  then show ?thesis
    using ConsultNoteTemplate by (simp add: format_note_def)
next
  case EpicHandoffTemplate
  have "concat (handoff_parts now t) =
          header_banner EpicHandoffTemplate @ concat (drop 3 (handoff_parts now t))"
    by (simp add: handoff_parts_def header_banner_def)
  then show ?thesis
    using EpicHandoffTemplate by (simp add: format_note_def)
next
  case OperativeReportTemplate
  have "concat (operative_parts now t) =
          header_banner OperativeReportTemplate @ concat (drop 3 (operative_parts now t))"
    by (simp add: operative_parts_def header_banner_def)
  then show ?thesis
    using OperativeReportTemplate by (simp add: format_note_def)
qed

lemma signed_footer:
  assumes "cls t \<noteq> EpicHandoffTemplate"
  shows "sublist (''\<newline>'' @ replicate 80 CHR ''-'' @ ''\<newline>'') (format_note now t)"
    and "suffix (''Date: '' @ strftime now @ ''\<newline>'') (format_note now t)"
    and "footer_has_timestamp now (format_note now t)"
proof -
  have rule_c: "''\<newline>'' @ replicate 80 CHR ''-'' @ ''\<newline>'' \<in> set (consult_parts now t)"
    by (simp add: consult_parts_def)
  have rule_o: "''\<newline>'' @ replicate 80 CHR ''-'' @ ''\<newline>'' \<in> set (operative_parts now t)"
    by (simp add: operative_parts_def)
  show "sublist (''\<newline>'' @ replicate 80 CHR ''-'' @ ''\<newline>'') (format_note now t)"
    using assms part_sublist [OF rule_c] part_sublist [OF rule_o]
    by (cases "cls t") (simp_all add: format_note_def)
  have date_c: "suffix (''Date: '' @ strftime now @ ''\<newline>'') (concat (consult_parts now t))"
    unfolding suffix_def by (rule exI [of _ "concat (butlast (consult_parts now t))"])
      (simp add: consult_parts_def)
  have date_o: "suffix (''Date: '' @ strftime now @ ''\<newline>'') (concat (operative_parts now t))"
    unfolding suffix_def by (rule exI [of _ "concat (butlast (operative_parts now t))"])
      (simp add: operative_parts_def)
  show "suffix (''Date: '' @ strftime now @ ''\<newline>'') (format_note now t)"
    using assms date_c date_o by (cases "cls t") (simp_all add: format_note_def)
  show "footer_has_timestamp now (format_note now t)"
    using assms consult_footer [of now t] operative_footer [of now t]
    by (cases "cls t") (simp_all add: format_note_def)
qed

lemma handoff_footer:
  assumes "cls t = EpicHandoffTemplate"
  shows "suffix (replicate 80 CHR ''='' @ ''\<newline>'') (format_note now t)"
    and "sublist (''Handoff Date/Time: '' @ strftime now @ ''\<newline>'') (format_note now t)"
proof -
  show "suffix (replicate 80 CHR ''='' @ ''\<newline>'') (format_note now t)"
    unfolding suffix_def using assms
    by (intro exI [of _ "concat (butlast (handoff_parts now t))"])
       (simp add: format_note_def handoff_parts_def)
  have "''Handoff Date/Time: '' @ strftime now @ ''\<newline>'' \<in> set (handoff_parts now t)"
    by (simp add: handoff_parts_def)
  from part_sublist [OF this] show
    "sublist (''Handoff Date/Time: '' @ strftime now @ ''\<newline>'') (format_note now t)"
    using assms by (simp add: format_note_def)
qed

lemma consult_layout:
  "concat (consult_parts now t) =
     header_banner ConsultNoteTemplate @ concat (take 28 (drop 3 (consult_parts now t))) @
     (''\<newline>'' @ replicate 80 CHR ''-'' @ ''\<newline>'') @
     optional_line t ''Consulting Physician'' ''consulting_physician'' @
     optional_line t ''Attending Physician'' ''attending_physician'' @
     ''Date: '' @ strftime now @ ''\<newline>''"
  by (simp add: consult_parts_def header_banner_def)

lemma operative_layout:
  "concat (operative_parts now t) =
     header_banner OperativeReportTemplate @ concat (take 39 (drop 3 (operative_parts now t))) @
     (''\<newline>'' @ replicate 80 CHR ''-'' @ ''\<newline>'') @
     required_line t ''Surgeon'' ''surgeon'' @
     optional_line t ''Attending'' ''attending_surgeon'' @
     ''Date: '' @ strftime now @ ''\<newline>''"
  by (simp add: operative_parts_def header_banner_def)

lemma handoff_layout:
  "concat (handoff_parts now t) =
     header_banner EpicHandoffTemplate @
     required_line t ''Patient'' ''patient_name'' @
     required_line t ''MRN'' ''patient_mrn'' @
     required_line t ''Location'' ''patient_location'' @
     optional_line t ''Age'' ''age'' @
     optional_line t ''Sex'' ''sex'' @
     optional_line t ''Admission Date'' ''admission_date'' @
     optional_line t ''Hospital Day'' ''hospital_day'' @
     optional_line t ''Code Status'' ''code_status'' @
     ''Handoff Date/Time: '' @ strftime now @ ''\<newline>'' @
     optional_line t ''From'' ''handoff_from'' @
     optional_line t ''To'' ''handoff_to'' @
     ''\<newline>'' @
     concat (take 20 (drop 15 (handoff_parts now t))) @
     replicate 80 CHR ''='' @ ''\<newline>''"
  by (simp add: handoff_parts_def header_banner_def)

lemma format_section_end:
  "suffix ''\<newline>'' (format_section title content indent) =
     (format_section title content indent \<noteq> [])"
proof (cases "truthy content")
  case True
  have "suffix ''\<newline>'' (a @ title @ '':\<newline>'' @ a @ py_str content @ ''\<newline>\<newline>'')" for a
    by (intro suffix_appendI) (simp add: suffix_def)
  with True show ?thesis by (simp add: format_section_def Let_def)
next
  case False
  then show ?thesis by (simp add: format_section_def)
qed

lemma format_list_section_end:
  "suffix ''\<newline>'' (format_list_section title items indent) =
     (format_list_section title items indent \<noteq> [])"
proof (cases "truthy items")
  case True
  have "suffix ''\<newline>'' (a @ title @ '':\<newline>'' @ b @ ''\<newline>\<newline>'')" for a b
    by (intro suffix_appendI) (simp add: suffix_def)
  with True show ?thesis by (simp add: format_list_section_def Let_def)
next
  case False
  then show ?thesis by (simp add: format_list_section_def)
qed

lemma section_patterns_end:
  "suffix ''\<newline>'' (required_section t title name) = (required_section t title name \<noteq> [])"
  "suffix ''\<newline>'' (optional_section t title name) = (optional_section t title name \<noteq> [])"
  "suffix ''\<newline>'' (required_dual_section t title name) =
     (required_dual_section t title name \<noteq> [])"
  "suffix ''\<newline>'' (optional_dual_section t title name) =
     (optional_dual_section t title name \<noteq> [])"
  by (simp_all add: required_section_def optional_section_def required_dual_section_def
        optional_dual_section_def format_section_end format_list_section_end)

lemma sections_end:
  "\<forall>p\<in>set ss. p = [] \<or> suffix ''\<newline>'' p \<Longrightarrow> suffix ''\<newline>'' (a @ ''\<newline>'' @ concat ss)"
proof (induction ss arbitrary: a)
  case Nil
  show ?case by (simp add: suffix_def)
next
  case (Cons p ss)
  show ?case
  proof (cases "p = []")
    case True
    with Cons show ?thesis by simp
  next
    case False
    with Cons.prems obtain y where "p = y @ ''\<newline>''"
      by (auto simp: suffix_def)
    moreover have "suffix ''\<newline>'' ((a @ ''\<newline>'' @ y) @ ''\<newline>'' @ concat ss)"
      using Cons.prems by (intro Cons.IH) simp
    ultimately show ?thesis by simp
  qed
qed

lemma rule_footer_empty:
  "footer_lines (P @ ''\<newline>'' @ replicate 80 CHR ''='' @ ''\<newline>'') = [[]]"
proof -
  let ?R = "replicate 80 CHR ''=''"
  have "P @ ''\<newline>'' @ ?R @ ''\<newline>'' = P @ CHR 0x0A # (?R @ CHR 0x0A # [])"
    by simp
  moreover have "split_lines ?R = [?R]"
    by (rule split_lines_no_newline) simp
  ultimately have lines: "split_lines (P @ ''\<newline>'' @ ?R @ ''\<newline>'') = split_lines P @ [?R, []]"
    by (simp only: split_lines_at_newline split_lines.simps) simp
  have "is_rule_line ?R" and "\<not> is_rule_line []"
    by (simp_all add: is_rule_line_def)
  then show ?thesis
    unfolding footer_lines_def lines by simp
qed

lemma strftime_not_Nil: "strftime now \<noteq> []"
  by (simp add: strftime_def)

lemma handoff_footer_empty: "footer_lines (concat (handoff_parts now t)) = [[]]"
proof -
  have "\<forall>p\<in>set (take 20 (drop 15 (handoff_parts now t))). p = [] \<or> suffix ''\<newline>'' p"
    by (simp add: handoff_parts_def section_patterns_end)
  then have "suffix ''\<newline>'' (concat (take 14 (handoff_parts now t)) @ ''\<newline>'' @
                concat (take 20 (drop 15 (handoff_parts now t))))"
    by (rule sections_end)
  then obtain P where P: "concat (take 14 (handoff_parts now t)) @ ''\<newline>'' @
                concat (take 20 (drop 15 (handoff_parts now t))) = P @ ''\<newline>''"
    by (auto simp: suffix_def)
  have "concat (handoff_parts now t) =
          (concat (take 14 (handoff_parts now t)) @ ''\<newline>'' @
             concat (take 20 (drop 15 (handoff_parts now t)))) @
          replicate 80 CHR ''='' @ ''\<newline>''"
    by (simp add: handoff_parts_def)
  then have "concat (handoff_parts now t) = P @ ''\<newline>'' @ replicate 80 CHR ''='' @ ''\<newline>''"
    by (simp only: P) simp
  then show ?thesis
    by (simp only: rule_footer_empty)
qed

text \<open>
  C3, as the code has it: every note starts with the header banner of its class (a rule of
  \<open>=\<close>, the title, a rule of \<open>=\<close>, a blank line). A Consult note is that banner, a
  body, the footer banner (a blank line and a rule of \<open>-\<close>) and, directly after it, the
  signature block: the optional lines \<open>Consulting Physician\<close> and \<open>Attending Physician\<close>
  and, last, the line \<open>Date:\<close> with the printed clock reading; an Operative note has the
  same shape with the lines \<open>Surgeon\<close> and, optionally, \<open>Attending\<close> before the date
  line. In both the date line is in the footer. A Handoff note has no signature block: the
  printed clock reading is in the line \<open>Handoff Date/Time:\<close> of the header block, after
  the lines \<open>Patient\<close>, \<open>MRN\<close>, \<open>Location\<close> and the optional lines \<open>Age\<close> to
  \<open>Code Status\<close> and before the optional lines \<open>From\<close> and \<open>To\<close>; the note ends with
  a rule of \<open>=\<close>, and nothing but the empty line follows its last rule line.
\<close>

theorem banners_and_timestamp:
  "prefix (header_banner (cls t)) (format_note now t) \<and>
   (cls t = ConsultNoteTemplate \<longrightarrow>
      (\<exists>body. format_note now t =
         header_banner ConsultNoteTemplate @ body @
         (''\<newline>'' @ replicate 80 CHR ''-'' @ ''\<newline>'') @
         optional_line t ''Consulting Physician'' ''consulting_physician'' @
         optional_line t ''Attending Physician'' ''attending_physician'' @
         ''Date: '' @ strftime now @ ''\<newline>'')) \<and>
   (cls t = OperativeReportTemplate \<longrightarrow>
      (\<exists>body. format_note now t =
         header_banner OperativeReportTemplate @ body @
         (''\<newline>'' @ replicate 80 CHR ''-'' @ ''\<newline>'') @
         required_line t ''Surgeon'' ''surgeon'' @
         optional_line t ''Attending'' ''attending_surgeon'' @
         ''Date: '' @ strftime now @ ''\<newline>'')) \<and>
   (cls t \<noteq> EpicHandoffTemplate \<longrightarrow>
      sublist (''\<newline>'' @ replicate 80 CHR ''-'' @ ''\<newline>'') (format_note now t) \<and>
      suffix (''Date: '' @ strftime now @ ''\<newline>'') (format_note now t) \<and>
      footer_has_timestamp now (format_note now t)) \<and>
   (cls t = EpicHandoffTemplate \<longrightarrow>
      (\<exists>rest. format_note now t =
         header_banner EpicHandoffTemplate @
         required_line t ''Patient'' ''patient_name'' @
         required_line t ''MRN'' ''patient_mrn'' @
         required_line t ''Location'' ''patient_location'' @
         optional_line t ''Age'' ''age'' @
         optional_line t ''Sex'' ''sex'' @
         optional_line t ''Admission Date'' ''admission_date'' @
         optional_line t ''Hospital Day'' ''hospital_day'' @
         optional_line t ''Code Status'' ''code_status'' @
         ''Handoff Date/Time: '' @ strftime now @ ''\<newline>'' @
         optional_line t ''From'' ''handoff_from'' @
         optional_line t ''To'' ''handoff_to'' @
         ''\<newline>'' @ rest @ replicate 80 CHR ''='' @ ''\<newline>'') \<and>
      suffix (replicate 80 CHR ''='' @ ''\<newline>'') (format_note now t) \<and>
      sublist (''Handoff Date/Time: '' @ strftime now @ ''\<newline>'') (format_note now t) \<and>
      footer_lines (format_note now t) = [[]] \<and>
      \<not> footer_has_timestamp now (format_note now t))"
proof (intro conjI impI)
  show "prefix (header_banner (cls t)) (format_note now t)"
    by (rule header_prefix)
next
  assume c: "cls t = ConsultNoteTemplate"
  show "\<exists>body. format_note now t =
         header_banner ConsultNoteTemplate @ body @
         (''\<newline>'' @ replicate 80 CHR ''-'' @ ''\<newline>'') @
         optional_line t ''Consulting Physician'' ''consulting_physician'' @
         optional_line t ''Attending Physician'' ''attending_physician'' @
         ''Date: '' @ strftime now @ ''\<newline>''"
    using c consult_layout [of now t]
    by (intro exI [of _ "concat (take 28 (drop 3 (consult_parts now t)))"])
       (simp only: format_note_def template_class.case)
next
  assume c: "cls t = OperativeReportTemplate"
  show "\<exists>body. format_note now t =
         header_banner OperativeReportTemplate @ body @
         (''\<newline>'' @ replicate 80 CHR ''-'' @ ''\<newline>'') @
         required_line t ''Surgeon'' ''surgeon'' @
         optional_line t ''Attending'' ''attending_surgeon'' @
         ''Date: '' @ strftime now @ ''\<newline>''"
    using c operative_layout [of now t]
    by (intro exI [of _ "concat (take 39 (drop 3 (operative_parts now t)))"])
       (simp only: format_note_def template_class.case)
next
  assume "cls t \<noteq> EpicHandoffTemplate"
  then show "sublist (''\<newline>'' @ replicate 80 CHR ''-'' @ ''\<newline>'') (format_note now t)"
    and "suffix (''Date: '' @ strftime now @ ''\<newline>'') (format_note now t)"
    and "footer_has_timestamp now (format_note now t)"
    by (rule signed_footer)+
next
  assume c: "cls t = EpicHandoffTemplate"
  show "\<exists>rest. format_note now t =
         header_banner EpicHandoffTemplate @
         required_line t ''Patient'' ''patient_name'' @
         required_line t ''MRN'' ''patient_mrn'' @
         required_line t ''Location'' ''patient_location'' @
         optional_line t ''Age'' ''age'' @
         optional_line t ''Sex'' ''sex'' @
         optional_line t ''Admission Date'' ''admission_date'' @
         optional_line t ''Hospital Day'' ''hospital_day'' @
         optional_line t ''Code Status'' ''code_status'' @
         ''Handoff Date/Time: '' @ strftime now @ ''\<newline>'' @
         optional_line t ''From'' ''handoff_from'' @
         optional_line t ''To'' ''handoff_to'' @
         ''\<newline>'' @ rest @ replicate 80 CHR ''='' @ ''\<newline>''"
    using c handoff_layout [of now t]
    by (intro exI [of _ "concat (take 20 (drop 15 (handoff_parts now t)))"])
       (simp only: format_note_def template_class.case)
  from c show "suffix (replicate 80 CHR ''='' @ ''\<newline>'') (format_note now t)"
    and "sublist (''Handoff Date/Time: '' @ strftime now @ ''\<newline>'') (format_note now t)"
    by (rule handoff_footer)+
  from c show empty: "footer_lines (format_note now t) = [[]]"
    using handoff_footer_empty [of now t] by (simp add: format_note_def)
  show "\<not> footer_has_timestamp now (format_note now t)"
    by (simp add: footer_has_timestamp_def empty strftime_not_Nil)
qed

theorem banners_and_timestamp_witness:
  "cls (init ConsultNoteTemplate example_created example_created) = ConsultNoteTemplate \<and>
   (\<exists>body. format_note example_now (init ConsultNoteTemplate example_created example_created) =
      header_banner ConsultNoteTemplate @ body @
      (''\<newline>'' @ replicate 80 CHR ''-'' @ ''\<newline>'') @ ''Date: '' @ strftime example_now @ ''\<newline>'') \<and>
   footer_has_timestamp example_now
     (format_note example_now (init ConsultNoteTemplate example_created example_created)) \<and>
   cls (init OperativeReportTemplate example_created example_created) = OperativeReportTemplate \<and>
   suffix (''Date: '' @ strftime example_now @ ''\<newline>'')
     (format_note example_now (init OperativeReportTemplate example_created example_created)) \<and>
   cls (init EpicHandoffTemplate example_created example_created) = EpicHandoffTemplate \<and>
   suffix (replicate 80 CHR ''='' @ ''\<newline>'')
     (format_note example_now (init EpicHandoffTemplate example_created example_created)) \<and>
   footer_lines
     (format_note example_now (init EpicHandoffTemplate example_created example_created)) = [[]]"
  using banners_and_timestamp
          [of "init ConsultNoteTemplate example_created example_created" example_now]
        banners_and_timestamp
          [of "init OperativeReportTemplate example_created example_created" example_now]
        banners_and_timestamp
          [of "init EpicHandoffTemplate example_created example_created" example_now]
  by (simp add: init_def optional_line_def get_field_def)

text \<open>
  C3, as the claim states it, fails for the Handoff class: after the last rule line of the
  note of an empty Handoff template there is only the empty line, so the footer has no
  signature block and no timestamp.
\<close>

theorem handoff_footer_no_timestamp:
  "footer_lines (format_note example_now (init EpicHandoffTemplate example_created example_created)) = [[]] \<and>
   \<not> footer_has_timestamp example_now
       (format_note example_now (init EpicHandoffTemplate example_created example_created))"
  by code_simp

section \<open>List sections\<close>

lemma list_in_dual_section:
  assumes "fields_dict t name = Some (PList items)" and "items \<noteq> []"
  shows "optional_dual_section t title name =
           title @ '':\<newline>'' @ join ''\<newline>'' (map (\<lambda>item. ''- '' @ item) items) @ ''\<newline>\<newline>''"
    and "required_dual_section t title name =
           title @ '':\<newline>'' @ join ''\<newline>'' (map (\<lambda>item. ''- '' @ item) items) @ ''\<newline>\<newline>''"
  using assms
  by (simp_all add: optional_dual_section_def required_dual_section_def get_field_def
        format_list_section_def)

lemma string_in_dual_section:
  assumes "fields_dict t name = Some (PStr s)" and "s \<noteq> []"
  shows "optional_dual_section t title name = title @ '':\<newline>'' @ s @ ''\<newline>\<newline>''"
    and "required_dual_section t title name = title @ '':\<newline>'' @ s @ ''\<newline>\<newline>''"
  using assms
  by (simp_all add: optional_dual_section_def required_dual_section_def get_field_def
        format_section_def)

lemma consult_dual_parts:
  "(name, title) \<in> set (list_sections ConsultNoteTemplate) \<Longrightarrow>
   optional_dual_section t title name \<in> set (consult_parts now t) \<or>
   required_dual_section t title name \<in> set (consult_parts now t)"
  by (auto simp: consult_parts_def)

lemma handoff_dual_parts:
  "(name, title) \<in> set (list_sections EpicHandoffTemplate) \<Longrightarrow>
   optional_dual_section t title name \<in> set (handoff_parts now t) \<or>
   required_dual_section t title name \<in> set (handoff_parts now t)"
  by (auto simp: handoff_parts_def)

lemma operative_dual_parts:
  "(name, title) \<in> set (list_sections OperativeReportTemplate) \<Longrightarrow>
   optional_dual_section t title name \<in> set (operative_parts now t) \<or>
   required_dual_section t title name \<in> set (operative_parts now t)"
  by (auto simp: operative_parts_def)

lemma dual_section_rendered:
  assumes "(name, title) \<in> set (list_sections (cls t))"
  shows "sublist (optional_dual_section t title name) (format_note now t) \<or>
         sublist (required_dual_section t title name) (format_note now t)"
proof (cases "cls t")
  case ConsultNoteTemplate
  with assms consult_dual_parts [of name title t now] show ?thesis
    by (auto simp: format_note_def intro: part_sublist)
next
  case EpicHandoffTemplate
  with assms handoff_dual_parts [of name title t now] show ?thesis
    by (auto simp: format_note_def intro: part_sublist)
next
  case OperativeReportTemplate
  with assms operative_dual_parts [of name title t now] show ?thesis
    by (auto simp: format_note_def intro: part_sublist)
qed

lemma split_lines_join:
  "xs \<noteq> [] \<Longrightarrow> \<forall>x\<in>set xs. CHR 0x0A \<notin> set x \<Longrightarrow> split_lines (join ''\<newline>'' xs) = xs"
proof (induction "''\<newline>''" xs rule: join.induct)
  case 1
  then show ?case by simp
next
  case (2 x)
  then show ?case by (simp add: split_lines_no_newline)
next
  case (3 x y ys)
  then have "split_lines (join ''\<newline>'' (y # ys)) = y # ys" by simp
  moreover have "split_lines x = [x]"
    using 3 by (simp add: split_lines_no_newline)
  ultimately show ?case
    using split_lines_at_newline [of x "join ''\<newline>'' (y # ys)"] by simp
qed

text \<open>
  C5, as the code has it: for every field that the renderer of the class treats as a list section, a stored
  non-empty list renders as the title line followed by one line \<open>- item\<close> per item and a
  blank line, and a stored non-empty string renders as the title line followed by the
  string as one block and a blank line. The bullet lines of \<open>N\<close> items without line
  breaks are exactly \<open>N\<close> lines. In particular a Consult template with
  \<open>recommendations = ["A", "B"]\<close> renders \<open>RECOMMENDATIONS:\<close> followed by exactly the
  lines \<open>- A\<close> and \<open>- B\<close>.
\<close>

theorem list_field_renders_bullets:
  "((name, title) \<in> set (list_sections (cls t)) \<and>
      fields_dict t name = Some (PList items) \<and> items \<noteq> [] \<longrightarrow>
    sublist (title @ '':\<newline>'' @ join ''\<newline>'' (map (\<lambda>item. ''- '' @ item) items) @ ''\<newline>\<newline>'')
            (format_note now t)) \<and>
   ((name, title) \<in> set (list_sections (cls t)) \<and>
      fields_dict t name = Some (PStr s) \<and> s \<noteq> [] \<longrightarrow>
    sublist (title @ '':\<newline>'' @ s @ ''\<newline>\<newline>'') (format_note now t)) \<and>
   (items \<noteq> [] \<and> (\<forall>item\<in>set items. CHR 0x0A \<notin> set item) \<longrightarrow>
    split_lines (join ''\<newline>'' (map (\<lambda>item. ''- '' @ item) items)) =
      map (\<lambda>item. ''- '' @ item) items) \<and>
   (cls t = ConsultNoteTemplate \<and> fields_dict t ''recommendations'' = Some (PList [''A'', ''B'']) \<longrightarrow>
    sublist ''RECOMMENDATIONS:\<newline>- A\<newline>- B\<newline>\<newline>'' (format_note now t))"
proof (intro conjI impI)
  assume a: "(name, title) \<in> set (list_sections (cls t)) \<and>
      fields_dict t name = Some (PList items) \<and> items \<noteq> []"
  then show "sublist (title @ '':\<newline>'' @ join ''\<newline>'' (map (\<lambda>item. ''- '' @ item) items) @ ''\<newline>\<newline>'')
            (format_note now t)"
    using dual_section_rendered [of name title t now]
      list_in_dual_section [of t name items title] by auto
next
  assume a: "(name, title) \<in> set (list_sections (cls t)) \<and>
      fields_dict t name = Some (PStr s) \<and> s \<noteq> []"
  then show "sublist (title @ '':\<newline>'' @ s @ ''\<newline>\<newline>'') (format_note now t)"
    using dual_section_rendered [of name title t now]
      string_in_dual_section [of t name s title] by auto
next
  assume "items \<noteq> [] \<and> (\<forall>item\<in>set items. CHR 0x0A \<notin> set item)"
  then show "split_lines (join ''\<newline>'' (map (\<lambda>item. ''- '' @ item) items)) =
      map (\<lambda>item. ''- '' @ item) items"
    by (intro split_lines_join) auto
next
  assume a: "cls t = ConsultNoteTemplate \<and>
    fields_dict t ''recommendations'' = Some (PList [''A'', ''B''])"
  then have "(''recommendations'', ''RECOMMENDATIONS'') \<in> set (list_sections (cls t))"
    by simp
  from dual_section_rendered [OF this, of now] a
  show "sublist ''RECOMMENDATIONS:\<newline>- A\<newline>- B\<newline>\<newline>'' (format_note now t)"
    using list_in_dual_section [of t "''recommendations''" "[''A'', ''B'']" "''RECOMMENDATIONS''"]
    by auto
qed

theorem list_field_renders_bullets_witness:
  "cls consult_populated = ConsultNoteTemplate \<and>
   fields_dict consult_populated ''recommendations'' = Some (PList [''A'', ''B'']) \<and>
   sublist ''RECOMMENDATIONS:\<newline>- A\<newline>- B\<newline>\<newline>'' (format_note example_now consult_populated) \<and>
   fields_dict consult_populated ''plan'' = Some (PStr ''Follow up in clinic'') \<and>
   sublist ''PLAN:\<newline>Follow up in clinic\<newline>\<newline>'' (format_note example_now consult_populated) \<and>
   split_lines ''- A\<newline>- B'' = [''- A'', ''- B'']"
  using list_field_renders_bullets
          [where name = "''recommendations''" and title = "''RECOMMENDATIONS''"
             and t = consult_populated and items = "[''A'', ''B'']"
             and s = "''Follow up in clinic''" and now = example_now]
        list_field_renders_bullets
          [where name = "''plan''" and title = "''PLAN''"
             and t = consult_populated and items = "[''A'', ''B'']"
             and s = "''Follow up in clinic''" and now = example_now]
  by (simp add: consult_populated_def set_field_def set_multiple_fields_def init_def)

text \<open>
  C5, as the claim states it for any field, fails: \<open>allergies\<close> of a Consult template has
  a scalar section only, and a list stored there is printed as Python prints a list, not
  as bullet lines.
\<close>

theorem list_in_scalar_section_not_bulleted:
  "fields_dict consult_listed_allergies ''allergies'' = Some (PList [''A'', ''B'']) \<and>
   sublist (''ALLERGIES:\<newline>['' @ [CHR 0x27] @ ''A'' @ [CHR 0x27] @ '', '' @
            [CHR 0x27] @ ''B'' @ [CHR 0x27] @ '']\<newline>\<newline>'')
           (format_note example_now consult_listed_allergies) \<and>
   \<not> sublist ''ALLERGIES:\<newline>- A\<newline>- B'' (format_note example_now consult_listed_allergies)"
  by code_simp

end
